theory Spec2Isabelle
  imports Main "HOL-Library.Word"
begin

section \<open>The Mandrill toolchain: lexer, parsers, code generator, container, VM, interpreter\<close>

text \<open>
  A shallow embedding of the Python sources \<^verbatim>\<open>lexer.py\<close>, \<^verbatim>\<open>compiler.py\<close>,
  \<^verbatim>\<open>vm.py\<close> and \<^verbatim>\<open>interpreter.py\<close>. Python integers are unbounded and are modelled
  as \<^typ>\<open>int\<close> (\<^typ>\<open>nat\<close> where the source only ever holds a non-negative value).
  Python strings are modelled as \<^typ>\<open>string\<close>, each \<^typ>\<open>char\<close> standing for the code
  point of the same number, so the model covers texts whose code points are below 256.
  Every exception of the source is a value of the type \<open>error\<close>; a function that can
  raise returns \<open>error + 'a\<close>.
\<close>

datatype error =
    LexicalError                \<comment> \<open>\<^verbatim>\<open>Exception("Lexical error at ...")\<close> of \<^verbatim>\<open>Lexer.error\<close>\<close>
  | SyntaxError                 \<comment> \<open>the exception of \<^verbatim>\<open>ASTParser.error\<close>\<close>
  | GenerationError             \<comment> \<open>the exceptions raised by \<^verbatim>\<open>CodeGenerator\<close>\<close>
  | InvalidMagic                \<comment> \<open>\<^verbatim>\<open>"Invalid bytecode file: wrong magic number"\<close>\<close>
  | UnsupportedVersion nat      \<comment> \<open>\<^verbatim>\<open>"Unsupported bytecode version: {}"\<close>\<close>
  | DivisionByZero              \<comment> \<open>\<^verbatim>\<open>Exception("Division by zero")\<close> of the VM\<close>
  | UnknownOpcode nat           \<comment> \<open>\<^verbatim>\<open>"Unknown opcode: {}"\<close>\<close>
  | UnknownEvalOperand nat      \<comment> \<open>\<^verbatim>\<open>"Unknown eval operand: {}"\<close>\<close>
  | UnknownBinaryOperator       \<comment> \<open>\<^verbatim>\<open>"Unknown binary operator: {}"\<close> of the interpreter\<close>
  | UnknownKeyword              \<comment> \<open>\<^verbatim>\<open>"Unknown keyword: {}"\<close> of the interpreter\<close>
  | IndexError                  \<comment> \<open>Python's exception for a list index out of range\<close>
  | TypeError                   \<comment> \<open>Python's exception, here for \<^verbatim>\<open>ord(None)\<close>\<close>
  | AttributeError              \<comment> \<open>Python's exception, here for \<^verbatim>\<open>None.type\<close>\<close>
  | ValueError                  \<comment> \<open>Python's exception for \<^verbatim>\<open>int\<close> on a malformed string\<close>
  | StructError                 \<comment> \<open>\<^verbatim>\<open>struct.error\<close>: a value out of range or a short buffer\<close>

subsection \<open>Python built-ins used by the sources\<close>

text \<open>\<^verbatim>\<open>str.isspace\<close>, \<^verbatim>\<open>str.isdigit\<close> and \<^verbatim>\<open>c.isalpha() and c.islower()\<close> on the
  code points below 256.\<close>

definition isspace :: "char \<Rightarrow> bool" where
  "isspace c = (let n = (of_char c :: nat) in
     (9 \<le> n \<and> n \<le> 13) \<or> (28 \<le> n \<and> n \<le> 32) \<or> n = 133 \<or> n = 160)"

definition is_ascii_digit :: "char \<Rightarrow> bool" where
  "is_ascii_digit c = (let n = (of_char c :: nat) in 48 \<le> n \<and> n \<le> 57)"

definition isdigit :: "char \<Rightarrow> bool" where
  "isdigit c = (let n = (of_char c :: nat) in
     (48 \<le> n \<and> n \<le> 57) \<or> n = 178 \<or> n = 179 \<or> n = 185)"

definition isalpha_islower :: "char \<Rightarrow> bool" where
  "isalpha_islower c = (let n = (of_char c :: nat) in
     (97 \<le> n \<and> n \<le> 122) \<or> n = 170 \<or> n = 181 \<or> n = 186
     \<or> (223 \<le> n \<and> n \<le> 246) \<or> (248 \<le> n \<and> n \<le> 255))"

text \<open>The value of a string of ASCII decimal digits, most significant digit first.\<close>

definition digit_value :: "char \<Rightarrow> nat" where
  "digit_value c = of_char c - 48"

fun decimal_value :: "nat \<Rightarrow> string \<Rightarrow> nat" where
  "decimal_value acc [] = acc"
| "decimal_value acc (c # cs) = decimal_value (10 * acc + digit_value c) cs"

text \<open>\<^verbatim>\<open>int(s)\<close> for a string \<open>s\<close> without surrounding whitespace: an optional sign, then
  ASCII digits, single underscores allowed between digits. \<open>None\<close> stands for
  \<^verbatim>\<open>ValueError\<close>. (The limit some Python versions put on the number of digits is not
  modelled.)\<close>

fun int_digits_ok :: "string \<Rightarrow> bool" where
  "int_digits_ok [] = False"
| "int_digits_ok [c] = is_ascii_digit c"
| "int_digits_ok (c # d # cs) =
     (is_ascii_digit c \<and> (if d = CHR ''_'' then int_digits_ok cs else int_digits_ok (d # cs)))"

definition int_unsigned :: "string \<Rightarrow> nat option" where
  "int_unsigned s =
     (if int_digits_ok s then Some (decimal_value 0 (filter (\<lambda>c. c \<noteq> CHR ''_'') s)) else None)"

fun py_int :: "string \<Rightarrow> int option" where
  "py_int [] = None"
| "py_int (c # cs) =
     (if c = CHR ''-'' then map_option (\<lambda>n. - int n) (int_unsigned cs)
      else if c = CHR ''+'' then map_option int (int_unsigned cs)
      else map_option int (int_unsigned (c # cs)))"

text \<open>\<^verbatim>\<open>str(n)\<close> for an integer, as \<^verbatim>\<open>print\<close> writes it.\<close>

fun digits10 :: "nat \<Rightarrow> string" where
  "digits10 n =
     (if n < 10 then [''0123456789'' ! n]
      else digits10 (n div 10) @ [''0123456789'' ! (n mod 10)])"

declare digits10.simps [simp del]

definition str_int :: "int \<Rightarrow> string" where
  "str_int i = (if i < 0 then CHR ''-'' # digits10 (nat (- i)) else digits10 (nat i))"

text \<open>\<^verbatim>\<open>format(n, 'x')\<close> and \<^verbatim>\<open>int(s, 16)\<close> on the strings the lexer produces.\<close>

fun hex_digits :: "nat \<Rightarrow> string" where
  "hex_digits n =
     (if n < 16 then [''0123456789abcdef'' ! n]
      else hex_digits (n div 16) @ [''0123456789abcdef'' ! (n mod 16)])"

declare hex_digits.simps [simp del]

text \<open>\<^verbatim>\<open>str.split()\<close>: the maximal runs of non-whitespace characters.\<close>

fun split_acc :: "string \<Rightarrow> string \<Rightarrow> string list" where
  "split_acc cur [] = (if cur = [] then [] else [cur])"
| "split_acc cur (c # cs) =
     (if isspace c then (if cur = [] then split_acc [] cs else cur # split_acc [] cs)
      else split_acc (cur @ [c]) cs)"

definition split :: "string \<Rightarrow> string list" where
  "split s = split_acc [] s"

subsection \<open>\<^verbatim>\<open>vm.py\<close>: the virtual machine\<close>

type_synonym instruction = "nat \<times> nat"

definition NOP :: nat where "NOP = 0x00000000"
definition DSTORE :: nat where "DSTORE = 0x00000001"
definition DLOAD :: nat where "DLOAD = 0x00000002"
definition DWRITE :: nat where "DWRITE = 0x00000003"
definition EVAL :: nat where "EVAL = 0x00000005"
definition JUMP :: nat where "JUMP = 0x00000006"
definition GETI :: nat where "GETI = 0x00000007"
definition GETC :: nat where "GETC = 0x00000008"
definition PUTI :: nat where "PUTI = 0x00000009"
definition PUTC :: nat where "PUTC = 0x0000000A"

definition OP_ADD :: nat where "OP_ADD = 0x00010001"
definition OP_SUB :: nat where "OP_SUB = 0x00010002"
definition OP_MUL :: nat where "OP_MUL = 0x00010003"
definition OP_DIV :: nat where "OP_DIV = 0x00010004"
definition OP_MOD :: nat where "OP_MOD = 0x00010005"
definition OP_GT :: nat where "OP_GT = 0x00010006"
definition OP_LT :: nat where "OP_LT = 0x00010007"
definition OP_GE :: nat where "OP_GE = 0x00010008"
definition OP_LE :: nat where "OP_LE = 0x00010009"
definition OP_EQ :: nat where "OP_EQ = 0x0001000A"
definition OP_NE :: nat where "OP_NE = 0x0001000B"
definition OP_COND_JUMP :: nat where "OP_COND_JUMP = 0x0001000C"

definition INT32_MIN :: int where "INT32_MIN = - 2147483648"
definition INT32_MAX :: int where "INT32_MAX = 2147483647"
definition UINT32_MAX :: int where "UINT32_MAX = 4294967296"

text \<open>
  The state of \<^verbatim>\<open>MandrillVM\<close>. The operand stack is a Python list whose last element
  is the top; here the top is the head of the list, so \<^verbatim>\<open>stack[-1]\<close> is the first
  element, \<^verbatim>\<open>stack[-2]\<close> the second, and \<^verbatim>\<open>append\<close> is \<open>#\<close>. The field
  \<open>stdout\<close> collects what \<^verbatim>\<open>print\<close> writes to standard output.
\<close>

record vm =
  stack :: "int list"
  variables :: "int list"
  code :: "instruction list"
  pc :: int
  input_tokens :: "string list"
  input_pos :: nat
  input_chars :: string
  char_pos :: nat
  stdout :: string

text \<open>\<^verbatim>\<open>__init__\<close> with \<^verbatim>\<open>_preload_input\<close>: all of standard input is read at once.\<close>

definition preload_input :: "string \<Rightarrow> vm" where
  "preload_input all_input =
     \<lparr>stack = [], variables = [], code = [], pc = 0,
      input_tokens = split all_input, input_pos = 0,
      input_chars = all_input, char_pos = 0, stdout = []\<rparr>"

text \<open>\<^verbatim>\<open>_get_next_int\<close>: the loop over the remaining tokens, returning the value and
  the number of tokens it consumed.\<close>

fun next_int_from :: "string list \<Rightarrow> int \<times> nat" where
  "next_int_from [] = (0, 0)"
| "next_int_from (token # ts) =
     (case py_int token of
        Some v \<Rightarrow> (v, 1)
      | None \<Rightarrow> (case next_int_from ts of (v, k) \<Rightarrow> (v, Suc k)))"

definition get_next_int :: "vm \<Rightarrow> int \<times> vm" where
  "get_next_int st =
     (case next_int_from (drop (input_pos st) (input_tokens st)) of
        (v, k) \<Rightarrow> (v, st\<lparr>input_pos := input_pos st + k\<rparr>))"

definition get_next_char :: "vm \<Rightarrow> int \<times> vm" where
  "get_next_char st =
     (if char_pos st < length (input_chars st)
      then (int (of_char (input_chars st ! char_pos st)), st\<lparr>char_pos := char_pos st + 1\<rparr>)
      else (0, st))"

definition to_32bit_int :: "int \<Rightarrow> int" where
  "to_32bit_int v =
     (if INT32_MIN \<le> v \<and> v \<le> INT32_MAX then v
      else ((v + INT32_MAX + 1) mod UINT32_MAX) + INT32_MIN)"

text \<open>\<^verbatim>\<open>execute_eval_optimized\<close>. Reading \<^verbatim>\<open>stack[-2]\<close> or \<^verbatim>\<open>stack[-3]\<close> of a
  shorter stack raises \<^verbatim>\<open>IndexError\<close>.\<close>

definition binary_result :: "nat \<Rightarrow> int \<Rightarrow> int \<Rightarrow> error + int" where
  "binary_result operand left right =
     (if operand = OP_MUL then
        Inr (if left = 0 \<or> right = 0 then 0
             else if left = 1 then right
             else if right = 1 then left
             else left * right)
      else if operand = OP_ADD then Inr (left + right)
      else if operand = OP_SUB then Inr (to_32bit_int (left - right))
      else if operand = OP_DIV then
        (if right = 0 then Inl DivisionByZero else Inr (to_32bit_int (left div right)))
      else if operand = OP_MOD then
        (if right = 0 then Inl DivisionByZero
         else let mod_result = left mod right;
                  mod_result = (if right > 0 \<and> mod_result < 0 then mod_result + right
                                else mod_result)
              in Inr (to_32bit_int mod_result))
      else if operand = OP_EQ then Inr (if left = right then 1 else 0)
      else if operand = OP_NE then Inr (if left \<noteq> right then 1 else 0)
      else if operand = OP_GT then Inr (if left > right then 1 else 0)
      else if operand = OP_LT then Inr (if left < right then 1 else 0)
      else if operand = OP_GE then Inr (if left \<ge> right then 1 else 0)
      else if operand = OP_LE then Inr (if left \<le> right then 1 else 0)
      else Inl (UnknownEvalOperand operand))"

definition execute_eval_optimized :: "nat \<Rightarrow> vm \<Rightarrow> error + vm" where
  "execute_eval_optimized operand st =
     (if operand = OP_COND_JUMP then
        (case stack st of
           else_addr # then_addr # condition # rest \<Rightarrow>
             Inr (st\<lparr>stack := rest,
                     pc := (if condition \<noteq> 0 then then_addr div 8 else else_addr div 8) - 1\<rparr>)
         | _ \<Rightarrow> Inl IndexError)
      else
        (case stack st of
           right # left # rest \<Rightarrow>
             (case binary_result operand left right of
                Inl e \<Rightarrow> Inl e
              | Inr result \<Rightarrow> Inr (st\<lparr>stack := result # rest\<rparr>))
         | _ \<Rightarrow> Inl IndexError))"

text \<open>The instruction handlers of \<^verbatim>\<open>run\<close>.\<close>

definition handle_dstore :: "nat \<Rightarrow> vm \<Rightarrow> error + vm" where
  "handle_dstore operand st = Inr (st\<lparr>stack := int operand # stack st\<rparr>)"

definition handle_dload :: "nat \<Rightarrow> vm \<Rightarrow> error + vm" where
  "handle_dload operand st =
     (if operand < length (variables st)
      then Inr (st\<lparr>stack := (variables st ! operand) # stack st\<rparr>)
      else Inl IndexError)"

definition handle_dwrite :: "nat \<Rightarrow> vm \<Rightarrow> error + vm" where
  "handle_dwrite operand st =
     (case stack st of
        [] \<Rightarrow> Inl IndexError
      | v # rest \<Rightarrow>
          (if operand < length (variables st)
           then Inr (st\<lparr>stack := rest, variables := (variables st)[operand := to_32bit_int v]\<rparr>)
           else Inl IndexError))"

definition handle_jump :: "nat \<Rightarrow> vm \<Rightarrow> bool \<times> vm" where
  "handle_jump operand st =
     (if operand = 0xFFFFFFFF then (True, st)
      else (False, st\<lparr>pc := int (operand div 8) - 1\<rparr>))"

definition handle_geti :: "vm \<Rightarrow> error + vm" where
  "handle_geti st = (case get_next_int st of (v, st') \<Rightarrow> Inr (st'\<lparr>stack := v # stack st'\<rparr>))"

definition handle_getc :: "vm \<Rightarrow> error + vm" where
  "handle_getc st = (case get_next_char st of (v, st') \<Rightarrow> Inr (st'\<lparr>stack := v # stack st'\<rparr>))"

definition handle_puti :: "vm \<Rightarrow> error + vm" where
  "handle_puti st =
     (case stack st of
        [] \<Rightarrow> Inl IndexError
      | v # rest \<Rightarrow> Inr (st\<lparr>stack := rest, stdout := stdout st @ str_int (to_32bit_int v)\<rparr>))"

definition handle_putc :: "vm \<Rightarrow> error + vm" where
  "handle_putc st =
     (case stack st of
        [] \<Rightarrow> Inl IndexError
      | v # rest \<Rightarrow>
          (let v' = to_32bit_int v in
           if 0 \<le> v' \<and> v' \<le> 127
           then Inr (st\<lparr>stack := rest, stdout := stdout st @ [char_of (nat v')]\<rparr>)
           else Inr (st\<lparr>stack := rest\<rparr>)))"

text \<open>\<^verbatim>\<open>code[self.pc]\<close>: Python counts a negative index from the end of the list.\<close>

definition fetch :: "instruction list \<Rightarrow> int \<Rightarrow> error + instruction" where
  "fetch c p =
     (if 0 \<le> p then (if p < int (length c) then Inr (c ! nat p) else Inl IndexError)
      else if - int (length c) \<le> p then Inr (c ! nat (int (length c) + p))
      else Inl IndexError)"

text \<open>One pass through the body of the main loop, up to but not including
  \<^verbatim>\<open>self.pc += 1\<close>. The flag is \<open>True\<close> when the loop is left by \<^verbatim>\<open>break\<close>.\<close>

definition dispatch :: "nat \<Rightarrow> nat \<Rightarrow> vm \<Rightarrow> error + (bool \<times> vm)" where
  "dispatch opcode operand st =
     (if opcode = JUMP then Inr (handle_jump operand st)
      else case
        (if opcode = NOP then Inr st
         else if opcode = DSTORE then handle_dstore operand st
         else if opcode = DLOAD then handle_dload operand st
         else if opcode = DWRITE then handle_dwrite operand st
         else if opcode = EVAL then execute_eval_optimized operand st
         else if opcode = GETI then handle_geti st
         else if opcode = GETC then handle_getc st
         else if opcode = PUTI then handle_puti st
         else if opcode = PUTC then handle_putc st
         else Inl (UnknownOpcode opcode))
      of Inl e \<Rightarrow> Inl e | Inr st' \<Rightarrow> Inr (False, st'))"

definition loop_body :: "vm \<Rightarrow> error + (bool \<times> vm)" where
  "loop_body st =
     (case fetch (code st) (pc st) of
        Inl e \<Rightarrow> Inl e
      | Inr (opcode, operand) \<Rightarrow> dispatch opcode operand st)"

text \<open>
  The main loop \<^verbatim>\<open>while self.pc < len(code)\<close>. It need not end, so it takes fuel: the
  number of instructions it may execute. \<open>None\<close> means the fuel ran out; \<open>Some (Inl
  (e, out))\<close> that exception \<open>e\<close> was raised after \<open>out\<close> had been written;
  \<open>Some (Inr st)\<close> that the loop ended, by \<^verbatim>\<open>break\<close> or by its condition.
\<close>

fun run_loop :: "nat \<Rightarrow> vm \<Rightarrow> ((error \<times> string) + vm) option" where
  "run_loop fuel st =
     (if pc st < int (length (code st)) then
        (case fuel of
           0 \<Rightarrow> None
         | Suc n \<Rightarrow>
             (case loop_body st of
                Inl e \<Rightarrow> Some (Inl (e, stdout st))
              | Inr (True, st') \<Rightarrow> Some (Inr st')
              | Inr (False, st') \<Rightarrow> run_loop n (st'\<lparr>pc := pc st' + 1\<rparr>)))
      else Some (Inr st))"

declare run_loop.simps [simp del]

definition run :: "nat \<Rightarrow> vm \<Rightarrow> ((error \<times> string) + vm) option" where
  "run fuel st = run_loop fuel (st\<lparr>pc := 0\<rparr>)"

subsection \<open>\<^verbatim>\<open>lexer.py\<close>: the lexer\<close>

datatype TokenType = KEYWORD | ID | LITERAL | OP

datatype token = Token TokenType string

definition KEYWORDS :: "string list" where
  "KEYWORDS = [''if'', ''else'', ''while'', ''read'', ''put'', ''write'', ''get'']"

definition SINGLE_CHAR_OPS :: "char list" where
  "SINGLE_CHAR_OPS = ''+-*/%><=;(){}''"

definition QUOTE :: char where "QUOTE = CHR 0x27"
definition BACKSLASH :: char where "BACKSLASH = CHR 0x5C"

text \<open>
  The state of a \<^verbatim>\<open>Lexer\<close> is the part of the source from \<^verbatim>\<open>pos\<close> on:
  \<^verbatim>\<open>current_char\<close> is its first character, \<^verbatim>\<open>None\<close> when it is empty, and
  \<^verbatim>\<open>advance\<close> drops one character. The line and column counters only feed error
  messages and are left out. Each function returns the rest of the source with its token.
\<close>

definition skip_whitespace :: "string \<Rightarrow> string" where
  "skip_whitespace s = dropWhile isspace s"

definition "identifier" :: "string \<Rightarrow> token \<times> string" where
  "identifier s =
     (let result = takeWhile isalpha_islower s; rest = dropWhile isalpha_islower s
      in (if result \<in> set KEYWORDS then Token KEYWORD result else Token ID result, rest))"

definition number :: "string \<Rightarrow> error + token \<times> string" where
  "number s =
     (let result = takeWhile isdigit s; rest = dropWhile isdigit s
      in case py_int result of
           None \<Rightarrow> Inl ValueError
         | Some v \<Rightarrow> Inr (Token LITERAL (''0x'' @ hex_digits (nat v)), rest))"

text \<open>\<^verbatim>\<open>character\<close>, from the check of the closing quote on.\<close>

definition character_close :: "nat \<Rightarrow> string \<Rightarrow> error + token \<times> string" where
  "character_close char_value s =
     (case s of
        [] \<Rightarrow> Inl LexicalError
      | c # rest \<Rightarrow>
          (if c \<noteq> QUOTE then Inl LexicalError
           else Inr (Token LITERAL (''0x'' @ hex_digits char_value), rest)))"

text \<open>\<^verbatim>\<open>character\<close> is called with the opening quote as the current character. At the
  end of the source \<^verbatim>\<open>ord(self.current_char)\<close> is \<^verbatim>\<open>ord(None)\<close>, a
  \<^verbatim>\<open>TypeError\<close>.\<close>

definition character :: "string \<Rightarrow> error + token \<times> string" where
  "character s =
     (case tl s of
        [] \<Rightarrow> Inl TypeError
      | c # s2 \<Rightarrow>
          (if c = BACKSLASH then
             (case s2 of
                [] \<Rightarrow> Inl LexicalError
              | e # s3 \<Rightarrow>
                  (if e = CHR ''n'' then character_close 10 s3
                   else if e = BACKSLASH then character_close (of_char BACKSLASH) s3
                   else if e = QUOTE then character_close (of_char QUOTE) s3
                   else Inl LexicalError))
           else character_close (of_char c) s2))"

text \<open>\<^verbatim>\<open>get_next_token\<close>. After \<^verbatim>\<open>skip_whitespace\<close> the loop is entered again with a
  current character that is not whitespace, so one pass decides. \<open>None\<close> as token is
  the end of the source.\<close>

definition get_next_token :: "string \<Rightarrow> error + token option \<times> string" where
  "get_next_token s =
     (case skip_whitespace s of
        [] \<Rightarrow> Inr (None, [])
      | c # cs \<Rightarrow>
          (if isalpha_islower c then
             (case identifier (c # cs) of (t, rest) \<Rightarrow> Inr (Some t, rest))
           else if isdigit c then
             (case number (c # cs) of Inl e \<Rightarrow> Inl e | Inr (t, rest) \<Rightarrow> Inr (Some t, rest))
           else if c = QUOTE then
             (case character (c # cs) of Inl e \<Rightarrow> Inl e | Inr (t, rest) \<Rightarrow> Inr (Some t, rest))
           else if c \<in> set ''><=!'' \<and> (case cs of [] \<Rightarrow> False | d # _ \<Rightarrow> d = CHR ''='') then
             Inr (Some (Token OP [c, CHR ''='']), tl cs)
           else if c \<in> set SINGLE_CHAR_OPS then Inr (Some (Token OP [c]), cs)
           else Inl LexicalError))"

subsection \<open>\<^verbatim>\<open>compiler.py\<close>: the syntax tree and its parser\<close>

datatype expr =
    BinaryOp expr string expr
  | Identifier string
  | Literal string
  | SpecialVar string

datatype stmt =
    AssignmentStatement expr expr
  | IfStatement expr "stmt list" "stmt list option"
  | WhileStatement expr "stmt list"

datatype program = Program "stmt list"

text \<open>
  An \<^verbatim>\<open>ASTParser\<close> holds the current token and its lexer, which it asks for one token
  at a time. The recursive descent is bounded by a depth \<open>n\<close> given to every parsing
  function: \<open>None\<close> means that the bound was too small for the source; it is not a
  result of the Python code.
\<close>

record parser =
  current_token :: "token option"
  lexer :: string

type_synonym 'a res = "(error + 'a) option"

definition ok :: "'a \<Rightarrow> 'a res" where
  "ok x = Some (Inr x)"

definition raise :: "error \<Rightarrow> 'a res" where
  "raise e = Some (Inl e)"

definition and_then :: "'a res \<Rightarrow> ('a \<Rightarrow> 'b res) \<Rightarrow> 'b res" where
  "and_then r f = (case r of None \<Rightarrow> None | Some (Inl e) \<Rightarrow> Some (Inl e) | Some (Inr x) \<Rightarrow> f x)"

definition ASTParser :: "string \<Rightarrow> error + parser" where
  "ASTParser source =
     (case get_next_token source of
        Inl e \<Rightarrow> Inl e
      | Inr (t, rest) \<Rightarrow> Inr \<lparr>current_token = t, lexer = rest\<rparr>)"

definition eat :: "parser \<Rightarrow> TokenType \<Rightarrow> string option \<Rightarrow> parser res" where
  "eat ps token_type token_value =
     (case current_token ps of
        None \<Rightarrow> raise SyntaxError
      | Some (Token ty v) \<Rightarrow>
          (if ty = token_type then
             (if token_value = None \<or> token_value = Some v then
                (case get_next_token (lexer ps) of
                   Inl e \<Rightarrow> raise e
                 | Inr (t, rest) \<Rightarrow> ok \<lparr>current_token = t, lexer = rest\<rparr>)
              else raise SyntaxError)
           else raise SyntaxError))"

text \<open>The current token is an operator among \<open>ops\<close>: the condition of the loops of
  \<^verbatim>\<open>equality\<close>, \<^verbatim>\<open>comparison\<close>, \<^verbatim>\<open>term\<close> and \<^verbatim>\<open>factor\<close>.\<close>

definition current_op :: "parser \<Rightarrow> string list \<Rightarrow> string option" where
  "current_op ps ops =
     (case current_token ps of
        None \<Rightarrow> None
      | Some (Token ty v) \<Rightarrow> (if ty = OP \<and> v \<in> set ops then Some v else None))"

text \<open>
  The methods \<^verbatim>\<open>expression\<close>, \<^verbatim>\<open>equality\<close>, \<^verbatim>\<open>comparison\<close>, \<^verbatim>\<open>term\<close>,
  \<^verbatim>\<open>factor\<close> and \<^verbatim>\<open>primary\<close> call each other; here they are one function
  \<open>descend\<close> whose argument of type \<open>rule\<close> names the method. \<open>Equality_loop left\<close>
  is the \<^verbatim>\<open>while\<close> loop of \<^verbatim>\<open>equality\<close> entered with the node \<^verbatim>\<open>left\<close> built so
  far, and likewise for the other three loops.

  \<^verbatim>\<open>compiler.py\<close> and \<^verbatim>\<open>interpreter.py\<close> each have a class \<^verbatim>\<open>ASTParser\<close>, and the
  six methods are the same in both but for the node classes they build and for the
  payload of a literal, which only the interpreter's \<^verbatim>\<open>primary\<close> converts to an
  integer. These are the parameter \<open>N\<close>.
\<close>

datatype 'e rule =
    Expression | Equality | Equality_loop 'e | Comparison | Comparison_loop 'e
  | Term | Term_loop 'e | Factor | Factor_loop 'e | Primary

record 'e nodes =
  mk_binary :: "'e \<Rightarrow> string \<Rightarrow> 'e \<Rightarrow> 'e"
  mk_literal :: "string \<Rightarrow> error + 'e"
  mk_identifier :: "string \<Rightarrow> 'e"
  mk_keyword :: "string \<Rightarrow> 'e"

fun descend :: "'e nodes \<Rightarrow> nat \<Rightarrow> 'e rule \<Rightarrow> parser \<Rightarrow> ('e \<times> parser) res" where
  "descend N 0 r ps = None"
| "descend N (Suc n) Expression ps = descend N n Equality ps"
| "descend N (Suc n) Equality ps =
     and_then (descend N n Comparison ps) (\<lambda>(left, ps). descend N n (Equality_loop left) ps)"
| "descend N (Suc n) (Equality_loop left) ps =
     (case current_op ps [''=='', ''!=''] of
        None \<Rightarrow> ok (left, ps)
      | Some op \<Rightarrow>
          and_then (eat ps OP (Some op)) (\<lambda>ps.
          and_then (descend N n Comparison ps) (\<lambda>(right, ps).
          descend N n (Equality_loop (mk_binary N left op right)) ps)))"
| "descend N (Suc n) Comparison ps =
     and_then (descend N n Term ps) (\<lambda>(left, ps). descend N n (Comparison_loop left) ps)"
| "descend N (Suc n) (Comparison_loop left) ps =
     (case current_op ps [''>'', ''<'', ''>='', ''<=''] of
        None \<Rightarrow> ok (left, ps)
      | Some op \<Rightarrow>
          and_then (eat ps OP (Some op)) (\<lambda>ps.
          and_then (descend N n Term ps) (\<lambda>(right, ps).
          descend N n (Comparison_loop (mk_binary N left op right)) ps)))"
| "descend N (Suc n) Term ps =
     and_then (descend N n Factor ps) (\<lambda>(left, ps). descend N n (Term_loop left) ps)"
| "descend N (Suc n) (Term_loop left) ps =
     (case current_op ps [''+'', ''-''] of
        None \<Rightarrow> ok (left, ps)
      | Some op \<Rightarrow>
          and_then (eat ps OP (Some op)) (\<lambda>ps.
          and_then (descend N n Factor ps) (\<lambda>(right, ps).
          descend N n (Term_loop (mk_binary N left op right)) ps)))"
| "descend N (Suc n) Factor ps =
     and_then (descend N n Primary ps) (\<lambda>(left, ps). descend N n (Factor_loop left) ps)"
| "descend N (Suc n) (Factor_loop left) ps =
     (case current_op ps [''*'', ''/'', ''%''] of
        None \<Rightarrow> ok (left, ps)
      | Some op \<Rightarrow>
          and_then (eat ps OP (Some op)) (\<lambda>ps.
          and_then (descend N n Primary ps) (\<lambda>(right, ps).
          descend N n (Factor_loop (mk_binary N left op right)) ps)))"
| "descend N (Suc n) Primary ps =
     (case current_token ps of
        None \<Rightarrow> raise AttributeError
      | Some (Token ty v) \<Rightarrow>
          (if ty = LITERAL then
             and_then (eat ps LITERAL None) (\<lambda>ps.
               case mk_literal N v of Inl e \<Rightarrow> raise e | Inr l \<Rightarrow> ok (l, ps))
           else if ty = ID then
             and_then (eat ps ID None) (\<lambda>ps. ok (mk_identifier N v, ps))
           else if ty = KEYWORD \<and> v \<in> set [''read'', ''write'', ''put'', ''get''] then
             and_then (eat ps KEYWORD None) (\<lambda>ps. ok (mk_keyword N v, ps))
           else if ty = OP \<and> v = ''('' then
             and_then (eat ps OP (Some ''('')) (\<lambda>ps.
             and_then (descend N n Expression ps) (\<lambda>(e, ps).
             and_then (eat ps OP (Some '')'')) (\<lambda>ps. ok (e, ps))))
           else raise SyntaxError))"

text \<open>The nodes of \<^verbatim>\<open>compiler.py\<close>, and its method \<^verbatim>\<open>expression\<close>.\<close>

definition compiler_nodes :: "expr nodes" where
  "compiler_nodes =
     \<lparr>mk_binary = BinaryOp, mk_literal = (\<lambda>v. Inr (Literal v)),
      mk_identifier = Identifier, mk_keyword = SpecialVar\<rparr>"

definition expression :: "nat \<Rightarrow> parser \<Rightarrow> (expr \<times> parser) res" where
  "expression n ps = descend compiler_nodes n Expression ps"

definition assignment_statement :: "nat \<Rightarrow> parser \<Rightarrow> (stmt \<times> parser) res" where
  "assignment_statement n ps =
     (case current_token ps of
        None \<Rightarrow> raise AttributeError
      | Some (Token ty v) \<Rightarrow>
          and_then
            (if ty = ID then and_then (eat ps ID None) (\<lambda>ps. ok (Identifier v, ps))
             else if ty = KEYWORD \<and> v \<in> set [''write'', ''put''] then
               and_then (eat ps KEYWORD None) (\<lambda>ps. ok (SpecialVar v, ps))
             else raise SyntaxError)
            (\<lambda>(lvalue, ps).
               and_then (eat ps OP (Some ''='')) (\<lambda>ps.
               and_then (expression n ps) (\<lambda>(e, ps).
               and_then (eat ps OP (Some '';'')) (\<lambda>ps.
               ok (AssignmentStatement lvalue e, ps))))))"

text \<open>The loop of \<^verbatim>\<open>statement_list\<close> goes on while the current token is neither of
  type \<^verbatim>\<open>op\<close> nor of value \<^verbatim>\<open>}\<close>, as the source writes it.\<close>

fun statement_list :: "nat \<Rightarrow> parser \<Rightarrow> (stmt list \<times> parser) res"
  and statement_list_loop :: "nat \<Rightarrow> stmt list \<Rightarrow> parser \<Rightarrow> (stmt list \<times> parser) res"
  and statement :: "nat \<Rightarrow> parser \<Rightarrow> (stmt \<times> parser) res"
  and if_statement :: "nat \<Rightarrow> parser \<Rightarrow> (stmt \<times> parser) res"
  and while_statement :: "nat \<Rightarrow> parser \<Rightarrow> (stmt \<times> parser) res"
where
  "statement_list 0 ps = None"
| "statement_list (Suc n) ps =
     (case current_token ps of
        None \<Rightarrow> ok ([], ps)
      | Some (Token ty v) \<Rightarrow>
          and_then
            (if ty \<noteq> OP \<or> v \<noteq> ''}'' then
               and_then (statement n ps) (\<lambda>(s, ps). ok ([s], ps))
             else ok ([], ps))
            (\<lambda>(statements, ps). statement_list_loop n statements ps))"
| "statement_list_loop 0 statements ps = None"
| "statement_list_loop (Suc n) statements ps =
     (case current_token ps of
        None \<Rightarrow> ok (statements, ps)
      | Some (Token ty v) \<Rightarrow>
          (if ty \<noteq> OP \<and> v \<noteq> ''}'' then
             and_then (statement n ps) (\<lambda>(s, ps). statement_list_loop n (statements @ [s]) ps)
           else ok (statements, ps)))"
| "statement 0 ps = None"
| "statement (Suc n) ps =
     (case current_token ps of
        None \<Rightarrow> raise SyntaxError
      | Some (Token ty v) \<Rightarrow>
          (if ty = KEYWORD then
             (if v = ''if'' then if_statement n ps
              else if v = ''while'' then while_statement n ps
              else if v \<in> set [''write'', ''put''] then assignment_statement n ps
              else raise SyntaxError)
           else if ty = ID then assignment_statement n ps
           else raise SyntaxError))"
| "if_statement 0 ps = None"
| "if_statement (Suc n) ps =
     and_then (eat ps KEYWORD (Some ''if'')) (\<lambda>ps.
     and_then (eat ps OP (Some ''('')) (\<lambda>ps.
     and_then (expression n ps) (\<lambda>(condition, ps).
     and_then (eat ps OP (Some '')'')) (\<lambda>ps.
     and_then (eat ps OP (Some ''{'')) (\<lambda>ps.
     and_then (statement_list n ps) (\<lambda>(then_statements, ps).
     and_then (eat ps OP (Some ''}'')) (\<lambda>ps.
     if current_token ps = Some (Token KEYWORD ''else'') then
       and_then (eat ps KEYWORD (Some ''else'')) (\<lambda>ps.
       and_then (eat ps OP (Some ''{'')) (\<lambda>ps.
       and_then (statement_list n ps) (\<lambda>(else_statements, ps).
       and_then (eat ps OP (Some ''}'')) (\<lambda>ps.
       ok (IfStatement condition then_statements (Some else_statements), ps)))))
     else ok (IfStatement condition then_statements None, ps))))))))"
| "while_statement 0 ps = None"
| "while_statement (Suc n) ps =
     and_then (eat ps KEYWORD (Some ''while'')) (\<lambda>ps.
     and_then (eat ps OP (Some ''('')) (\<lambda>ps.
     and_then (expression n ps) (\<lambda>(condition, ps).
     and_then (eat ps OP (Some '')'')) (\<lambda>ps.
     and_then (eat ps OP (Some ''{'')) (\<lambda>ps.
     and_then (statement_list n ps) (\<lambda>(body_statements, ps).
     and_then (eat ps OP (Some ''}'')) (\<lambda>ps.
     ok (WhileStatement condition body_statements, ps))))))))"

definition parse :: "nat \<Rightarrow> parser \<Rightarrow> program res" where
  "parse n ps =
     and_then (statement_list n ps) (\<lambda>(statements, ps).
       if current_token ps \<noteq> None then raise SyntaxError else ok (Program statements))"

subsection \<open>\<^verbatim>\<open>compiler.py\<close>: the code generator\<close>

text \<open>\<^verbatim>\<open>int(s, 16)\<close> on the payload of a literal token, which the lexer writes as
  \<^verbatim>\<open>0x\<close> followed by hexadecimal digits. \<open>None\<close> stands for \<^verbatim>\<open>ValueError\<close>; every
  string that is not of that form is taken to raise it.\<close>

definition hex_digit_value :: "char \<Rightarrow> nat option" where
  "hex_digit_value c =
     (let n = (of_char c :: nat) in
      if 48 \<le> n \<and> n \<le> 57 then Some (n - 48)
      else if 97 \<le> n \<and> n \<le> 102 then Some (n - 87)
      else if 65 \<le> n \<and> n \<le> 70 then Some (n - 55)
      else None)"

fun hex_value :: "nat \<Rightarrow> string \<Rightarrow> nat option" where
  "hex_value acc [] = Some acc"
| "hex_value acc (c # cs) =
     (case hex_digit_value c of None \<Rightarrow> None | Some d \<Rightarrow> hex_value (16 * acc + d) cs)"

definition int_16 :: "string \<Rightarrow> nat option" where
  "int_16 s = (if take 2 s = ''0x'' \<and> drop 2 s \<noteq> [] then hex_value 0 (drop 2 s) else None)"

record CodeGenerator =
  instructions :: "instruction list"
  var_table :: "string \<rightharpoonup> nat"
  var_count :: nat

definition new_CodeGenerator :: CodeGenerator where
  "new_CodeGenerator = \<lparr>instructions = [], var_table = Map.empty, var_count = 0\<rparr>"

definition get_var_id :: "string \<Rightarrow> CodeGenerator \<Rightarrow> nat \<times> CodeGenerator" where
  "get_var_id name g =
     (case var_table g name of
        None \<Rightarrow> (var_count g,
                 g\<lparr>var_table := (var_table g)(name \<mapsto> var_count g), var_count := var_count g + 1\<rparr>)
      | Some i \<Rightarrow> (i, g))"

definition emit :: "nat \<Rightarrow> nat \<Rightarrow> CodeGenerator \<Rightarrow> CodeGenerator" where
  "emit opcode operand g = g\<lparr>instructions := instructions g @ [(opcode, operand)]\<rparr>"

definition patch_jump :: "nat \<Rightarrow> nat \<Rightarrow> CodeGenerator \<Rightarrow> error + CodeGenerator" where
  "patch_jump instruction_index target_address g =
     (if instruction_index < length (instructions g)
      then Inr (g\<lparr>instructions := (instructions g)
                  [instruction_index := (fst (instructions g ! instruction_index), target_address)]\<rparr>)
      else Inl IndexError)"

definition op_map :: "(string \<times> nat) list" where
  "op_map = [(''+'', OP_ADD), (''-'', OP_SUB), (''*'', OP_MUL), (''/'', OP_DIV),
             (''%'', OP_MOD), (''>'', OP_GT), (''<'', OP_LT), (''>='', OP_GE),
             (''<='', OP_LE), (''=='', OP_EQ), (''!='', OP_NE)]"

text \<open>\<^verbatim>\<open>visit_BinaryOp\<close>, \<^verbatim>\<open>visit_Identifier\<close>, \<^verbatim>\<open>visit_Literal\<close> and
  \<^verbatim>\<open>visit_SpecialVar\<close>, which \<^verbatim>\<open>visit\<close> selects by the class of the node.\<close>

fun visit_expr :: "expr \<Rightarrow> CodeGenerator \<Rightarrow> error + CodeGenerator" where
  "visit_expr (BinaryOp left operator right) g =
     (case visit_expr left g of
        Inl e \<Rightarrow> Inl e
      | Inr g1 \<Rightarrow>
          (case visit_expr right g1 of
             Inl e \<Rightarrow> Inl e
           | Inr g2 \<Rightarrow>
               (case map_of op_map operator of
                  Some operand \<Rightarrow> Inr (emit EVAL operand g2)
                | None \<Rightarrow> Inl GenerationError)))"
| "visit_expr (Identifier name) g =
     (case get_var_id name g of (var_id, g1) \<Rightarrow> Inr (emit DLOAD var_id g1))"
| "visit_expr (Literal v) g =
     (case int_16 v of None \<Rightarrow> Inl ValueError | Some n \<Rightarrow> Inr (emit DSTORE n g))"
| "visit_expr (SpecialVar name) g =
     (if name = ''read'' then Inr (emit GETI 0 g)
      else if name = ''get'' then Inr (emit GETC 0 g)
      else if name = ''write'' \<or> name = ''put'' then Inl GenerationError
      else Inr g)"

text \<open>The left-hand side of \<^verbatim>\<open>visit_AssignmentStatement\<close>, after the right-hand side
  has been visited.\<close>

definition emit_lvalue :: "expr \<Rightarrow> CodeGenerator \<Rightarrow> CodeGenerator" where
  "emit_lvalue lvalue g =
     (case lvalue of
        Identifier name \<Rightarrow> (case get_var_id name g of (var_id, g1) \<Rightarrow> emit DWRITE var_id g1)
      | SpecialVar name \<Rightarrow>
          (if name = ''write'' then emit PUTI 0 g
           else if name = ''put'' then emit PUTC 0 g
           else g)
      | _ \<Rightarrow> g)"

text \<open>The three instructions that \<^verbatim>\<open>visit_IfStatement\<close> and
  \<^verbatim>\<open>visit_WhileStatement\<close> emit after the condition: two \<^verbatim>\<open>DSTORE\<close> with the
  placeholder 0 and \<^verbatim>\<open>EVAL COND_JUMP\<close>.\<close>

definition emit_branch :: "CodeGenerator \<Rightarrow> CodeGenerator" where
  "emit_branch g = emit EVAL OP_COND_JUMP (emit DSTORE 0 (emit DSTORE 0 g))"

text \<open>
  \<^verbatim>\<open>visit_AssignmentStatement\<close>, \<^verbatim>\<open>visit_IfStatement\<close> and
  \<^verbatim>\<open>visit_WhileStatement\<close>; \<open>visit_stmts\<close> is the loop
  \<^verbatim>\<open>for stmt in ...: self.visit(stmt)\<close>. The test \<^verbatim>\<open>if node.else_statements\<close> holds
  for a list that is neither \<^verbatim>\<open>None\<close> nor empty. In the names of the source,
  \<^verbatim>\<open>then_addr_pos\<close> is \<open>length (instructions g1)\<close>, \<^verbatim>\<open>else_addr_pos\<close> is one more,
  and \<^verbatim>\<open>then_start\<close> (\<^verbatim>\<open>body_start\<close>) is three more.
\<close>

fun visit_stmt :: "stmt \<Rightarrow> CodeGenerator \<Rightarrow> error + CodeGenerator"
  and visit_stmts :: "stmt list \<Rightarrow> CodeGenerator \<Rightarrow> error + CodeGenerator"
where
  "visit_stmt (AssignmentStatement lvalue rhs) g =
     (case visit_expr rhs g of
        Inl e \<Rightarrow> Inl e
      | Inr g1 \<Rightarrow> Inr (emit_lvalue lvalue g1))"
| "visit_stmt (IfStatement condition then_statements (Some (s # ss))) g =
     (case visit_expr condition g of
        Inl e \<Rightarrow> Inl e
      | Inr g1 \<Rightarrow>
          (case visit_stmts then_statements (emit_branch g1) of
             Inl e \<Rightarrow> Inl e
           | Inr g2 \<Rightarrow>
               (case visit_stmts (s # ss) (emit JUMP 0 g2) of
                  Inl e \<Rightarrow> Inl e
                | Inr g3 \<Rightarrow>
                    (case patch_jump (length (instructions g2))
                            (length (instructions g3) * 8) g3 of
                       Inl e \<Rightarrow> Inl e
                     | Inr g4 \<Rightarrow>
                         (case patch_jump (length (instructions g1))
                                 ((length (instructions g1) + 3) * 8) g4 of
                            Inl e \<Rightarrow> Inl e
                          | Inr g5 \<Rightarrow>
                              patch_jump (length (instructions g1) + 1)
                                ((length (instructions g2) + 1) * 8) g5)))))"
| "visit_stmt (IfStatement condition then_statements else_statements) g =
     (case visit_expr condition g of
        Inl e \<Rightarrow> Inl e
      | Inr g1 \<Rightarrow>
          (case visit_stmts then_statements (emit_branch g1) of
             Inl e \<Rightarrow> Inl e
           | Inr g2 \<Rightarrow>
               (case patch_jump (length (instructions g1))
                       ((length (instructions g1) + 3) * 8) g2 of
                  Inl e \<Rightarrow> Inl e
                | Inr g3 \<Rightarrow>
                    patch_jump (length (instructions g1) + 1)
                      (length (instructions g2) * 8) g3)))"
| "visit_stmt (WhileStatement condition body_statements) g =
     (case visit_expr condition g of
        Inl e \<Rightarrow> Inl e
      | Inr g1 \<Rightarrow>
          (case visit_stmts body_statements (emit_branch g1) of
             Inl e \<Rightarrow> Inl e
           | Inr g2 \<Rightarrow>
               (case patch_jump (length (instructions g1))
                       ((length (instructions g1) + 3) * 8)
                       (emit JUMP (length (instructions g) * 8) g2) of
                  Inl e \<Rightarrow> Inl e
                | Inr g3 \<Rightarrow>
                    patch_jump (length (instructions g1) + 1)
                      ((length (instructions g2) + 1) * 8) g3)))"
| "visit_stmts [] g = Inr g"
| "visit_stmts (s # ss) g =
     (case visit_stmt s g of Inl e \<Rightarrow> Inl e | Inr g1 \<Rightarrow> visit_stmts ss g1)"

definition visit_Program :: "program \<Rightarrow> CodeGenerator \<Rightarrow> error + CodeGenerator" where
  "visit_Program node g = (case node of Program statements \<Rightarrow> visit_stmts statements g)"

text \<open>\<^verbatim>\<open>generate\<close> returns \<^verbatim>\<open>self.instructions\<close>; here it returns the generator, whose
  field \<open>instructions\<close> is that list and whose \<open>var_count\<close> \<^verbatim>\<open>main\<close> reads next.\<close>

definition generate :: "program \<Rightarrow> CodeGenerator \<Rightarrow> error + CodeGenerator" where
  "generate ast g =
     (case visit_Program ast g of
        Inl e \<Rightarrow> Inl e
      | Inr g1 \<Rightarrow> Inr (emit JUMP 0xFFFFFFFF g1))"

subsection \<open>The bytecode container: \<^verbatim>\<open>BytecodeWriter\<close> and \<^verbatim>\<open>load_bytecode\<close>\<close>

type_synonym byte = "8 word"

text \<open>\<^verbatim>\<open>struct.pack(">I", n)\<close> and \<^verbatim>\<open>struct.unpack(">I", b)\<close>: four bytes, big-endian;
  \<^verbatim>\<open>struct.error\<close> for a value that does not fit or a buffer of another length.\<close>

definition pack_I :: "nat \<Rightarrow> error + byte list" where
  "pack_I n =
     (if n < 2 ^ 32
      then Inr [of_nat (n div 2 ^ 24), of_nat (n div 2 ^ 16 mod 256),
                of_nat (n div 2 ^ 8 mod 256), of_nat (n mod 256)]
      else Inl StructError)"

definition unpack_I :: "byte list \<Rightarrow> error + nat" where
  "unpack_I b =
     (case b of
        [b0, b1, b2, b3] \<Rightarrow> Inr (unat b0 * 2 ^ 24 + unat b1 * 2 ^ 16 + unat b2 * 2 ^ 8 + unat b3)
      | _ \<Rightarrow> Inl StructError)"

definition pack_II :: "nat \<Rightarrow> nat \<Rightarrow> error + byte list" where
  "pack_II opcode operand =
     (case pack_I opcode of
        Inl e \<Rightarrow> Inl e
      | Inr a \<Rightarrow> (case pack_I operand of Inl e \<Rightarrow> Inl e | Inr b \<Rightarrow> Inr (a @ b)))"

definition unpack_II :: "byte list \<Rightarrow> error + instruction" where
  "unpack_II b =
     (if length b = 8 then
        (case unpack_I (take 4 b) of
           Inl e \<Rightarrow> Inl e
         | Inr opcode \<Rightarrow>
             (case unpack_I (drop 4 b) of
                Inl e \<Rightarrow> Inl e
              | Inr operand \<Rightarrow> Inr (opcode, operand)))
      else Inl StructError)"

definition magic :: "byte list" where
  "magic = map (\<lambda>c. of_nat (of_char c)) ''MANDRILLBYTECODE''"

definition padding :: "byte list" where
  "padding = [0, 0, 0, 0]"

fun pack_code :: "instruction list \<Rightarrow> error + byte list" where
  "pack_code [] = Inr []"
| "pack_code ((opcode, operand) # rest) =
     (case pack_II opcode operand of
        Inl e \<Rightarrow> Inl e
      | Inr instruction \<Rightarrow>
          (case pack_code rest of Inl e \<Rightarrow> Inl e | Inr c \<Rightarrow> Inr (instruction @ c)))"

definition write_bytecode :: "instruction list \<Rightarrow> nat \<Rightarrow> error + byte list" where
  "write_bytecode instrs var_cnt =
     (let data_size = var_cnt * 4; code_size = length instrs * 8 in
      case pack_I 1 of
        Inl e \<Rightarrow> Inl e
      | Inr version \<Rightarrow>
          (case pack_I data_size of
             Inl e \<Rightarrow> Inl e
           | Inr data_size_bytes \<Rightarrow>
               (case pack_I code_size of
                  Inl e \<Rightarrow> Inl e
                | Inr code_size_bytes \<Rightarrow>
                    (case pack_code instrs of
                       Inl e \<Rightarrow> Inl e
                     | Inr c \<Rightarrow>
                         Inr (magic @ version @ data_size_bytes @ code_size_bytes
                              @ padding @ c)))))"

text \<open>The loop of \<^verbatim>\<open>load_bytecode\<close> over \<^verbatim>\<open>range(instruction_count)\<close>.\<close>

fun read_instructions :: "byte list \<Rightarrow> nat list \<Rightarrow> error + instruction list" where
  "read_instructions code_bytes [] = Inr []"
| "read_instructions code_bytes (i # is) =
     (case unpack_II (take 8 (drop (i * 8) code_bytes)) of
        Inl e \<Rightarrow> Inl e
      | Inr ins \<Rightarrow>
          (case read_instructions code_bytes is of
             Inl e \<Rightarrow> Inl e
           | Inr rest \<Rightarrow> Inr (ins # rest)))"

text \<open>\<^verbatim>\<open>load_bytecode\<close> on the content \<open>f\<close> of the file: each \<^verbatim>\<open>f.read(n)\<close> takes
  the next \<open>n\<close> bytes, fewer at the end of the file.\<close>

definition load_bytecode :: "byte list \<Rightarrow> vm \<Rightarrow> error + vm" where
  "load_bytecode f st =
     (if take 16 f \<noteq> magic then Inl InvalidMagic
      else case unpack_I (take 4 (drop 16 f)) of
        Inl e \<Rightarrow> Inl e
      | Inr version \<Rightarrow>
          (if version \<noteq> 1 then Inl (UnsupportedVersion version)
           else case unpack_I (take 4 (drop 20 f)) of
             Inl e \<Rightarrow> Inl e
           | Inr data_size \<Rightarrow>
               (case unpack_I (take 4 (drop 24 f)) of
                  Inl e \<Rightarrow> Inl e
                | Inr code_size \<Rightarrow>
                    (case read_instructions (take code_size (drop 32 f))
                            [0 ..< code_size div 8] of
                       Inl e \<Rightarrow> Inl e
                     | Inr c \<Rightarrow>
                         Inr (st\<lparr>variables := replicate (data_size div 4) 0,
                                 stack := [], code := c\<rparr>)))))"

subsection \<open>The two programs: \<^verbatim>\<open>compiler.py\<close> and \<^verbatim>\<open>vm.py\<close>\<close>

text \<open>\<^verbatim>\<open>main\<close> of \<^verbatim>\<open>compiler.py\<close>: from the source text to the bytes of the container.\<close>

definition compile :: "nat \<Rightarrow> string \<Rightarrow> byte list res" where
  "compile n source =
     (case ASTParser source of
        Inl e \<Rightarrow> raise e
      | Inr ps \<Rightarrow>
          and_then (parse n ps) (\<lambda>ast.
            case generate ast new_CodeGenerator of
              Inl e \<Rightarrow> raise e
            | Inr g \<Rightarrow> Some (write_bytecode (instructions g) (var_count g))))"

text \<open>\<^verbatim>\<open>main\<close> of \<^verbatim>\<open>vm.py\<close>: the bytes of the file, standard input, and the fuel of
  the main loop.\<close>

definition vm_main :: "nat \<Rightarrow> byte list \<Rightarrow> string \<Rightarrow> ((error \<times> string) + vm) option" where
  "vm_main fuel f all_input =
     (case load_bytecode f (preload_input all_input) of
        Inl e \<Rightarrow> Some (Inl (e, []))
      | Inr st \<Rightarrow> run fuel st)"

subsection \<open>\<^verbatim>\<open>interpreter.py\<close>: the tree-walking interpreter\<close>

text \<open>The node classes of \<^verbatim>\<open>interpreter.py\<close>. Those that share a name with a class of
  \<^verbatim>\<open>compiler.py\<close> carry the prefix \<open>i\<close> here.\<close>

datatype iexpr =
    iBinaryOp iexpr string iexpr
  | iLiteral int
  | iIdentifier string
  | Keyword string

datatype istmt =
    Assignment iexpr iexpr
  | iIfStatement iexpr istmt "istmt option"
  | iWhileStatement iexpr istmt
  | Block "istmt list"

datatype iprogram = iProgram "istmt list"

text \<open>\<^verbatim>\<open>primary\<close> of \<^verbatim>\<open>interpreter.py\<close> converts the payload of a literal:
  \<^verbatim>\<open>int(value, 16)\<close> if it starts with \<^verbatim>\<open>0x\<close>, else \<^verbatim>\<open>int(value)\<close>.\<close>

definition literal_node :: "string \<Rightarrow> error + iexpr" where
  "literal_node v =
     (if take 2 v = ''0x'' then
        (case int_16 v of None \<Rightarrow> Inl ValueError | Some n \<Rightarrow> Inr (iLiteral (int n)))
      else
        (case py_int v of None \<Rightarrow> Inl ValueError | Some i \<Rightarrow> Inr (iLiteral i)))"

definition interpreter_nodes :: "iexpr nodes" where
  "interpreter_nodes =
     \<lparr>mk_binary = iBinaryOp, mk_literal = literal_node,
      mk_identifier = iIdentifier, mk_keyword = Keyword\<rparr>"

definition i_expression :: "nat \<Rightarrow> parser \<Rightarrow> (iexpr \<times> parser) res" where
  "i_expression n ps = descend interpreter_nodes n Expression ps"

definition i_assignment_statement :: "nat \<Rightarrow> parser \<Rightarrow> (istmt \<times> parser) res" where
  "i_assignment_statement n ps =
     (case current_token ps of
        None \<Rightarrow> raise AttributeError
      | Some (Token ty v) \<Rightarrow>
          and_then
            (if ty = ID then and_then (eat ps ID None) (\<lambda>ps. ok (iIdentifier v, ps))
             else if ty = KEYWORD \<and> v \<in> set [''write'', ''put''] then
               and_then (eat ps KEYWORD None) (\<lambda>ps. ok (Keyword v, ps))
             else raise SyntaxError)
            (\<lambda>(target, ps).
               and_then (eat ps OP (Some ''='')) (\<lambda>ps.
               and_then (i_expression n ps) (\<lambda>(e, ps).
               and_then (eat ps OP (Some '';'')) (\<lambda>ps.
               ok (Assignment target e, ps))))))"

text \<open>The interpreter's \<^verbatim>\<open>statement_list\<close> is one loop, which goes on until the end of
  the source or a token \<^verbatim>\<open>}\<close> of type \<^verbatim>\<open>op\<close>.\<close>

fun i_statement_list :: "nat \<Rightarrow> istmt list \<Rightarrow> parser \<Rightarrow> (istmt list \<times> parser) res"
  and i_statement :: "nat \<Rightarrow> parser \<Rightarrow> (istmt \<times> parser) res"
  and i_if_statement :: "nat \<Rightarrow> parser \<Rightarrow> (istmt \<times> parser) res"
  and i_while_statement :: "nat \<Rightarrow> parser \<Rightarrow> (istmt \<times> parser) res"
where
  "i_statement_list 0 statements ps = None"
| "i_statement_list (Suc n) statements ps =
     (case current_token ps of
        None \<Rightarrow> ok (statements, ps)
      | Some (Token ty v) \<Rightarrow>
          (if \<not> (ty = OP \<and> v = ''}'') then
             and_then (i_statement n ps) (\<lambda>(s, ps). i_statement_list n (statements @ [s]) ps)
           else ok (statements, ps)))"
| "i_statement 0 ps = None"
| "i_statement (Suc n) ps =
     (case current_token ps of
        None \<Rightarrow> raise SyntaxError
      | Some (Token ty v) \<Rightarrow>
          (if ty = KEYWORD then
             (if v = ''if'' then i_if_statement n ps
              else if v = ''while'' then i_while_statement n ps
              else if v \<in> set [''write'', ''put''] then i_assignment_statement n ps
              else raise SyntaxError)
           else if ty = ID then i_assignment_statement n ps
           else raise SyntaxError))"
| "i_if_statement 0 ps = None"
| "i_if_statement (Suc n) ps =
     and_then (eat ps KEYWORD (Some ''if'')) (\<lambda>ps.
     and_then (eat ps OP (Some ''('')) (\<lambda>ps.
     and_then (i_expression n ps) (\<lambda>(condition, ps).
     and_then (eat ps OP (Some '')'')) (\<lambda>ps.
     and_then (eat ps OP (Some ''{'')) (\<lambda>ps.
     and_then (i_statement_list n [] ps) (\<lambda>(then_block, ps).
     and_then (eat ps OP (Some ''}'')) (\<lambda>ps.
     if current_token ps = Some (Token KEYWORD ''else'') then
       and_then (eat ps KEYWORD (Some ''else'')) (\<lambda>ps.
       and_then (eat ps OP (Some ''{'')) (\<lambda>ps.
       and_then (i_statement_list n [] ps) (\<lambda>(else_block, ps).
       and_then (eat ps OP (Some ''}'')) (\<lambda>ps.
       ok (iIfStatement condition (Block then_block) (Some (Block else_block)), ps)))))
     else ok (iIfStatement condition (Block then_block) None, ps))))))))"
| "i_while_statement 0 ps = None"
| "i_while_statement (Suc n) ps =
     and_then (eat ps KEYWORD (Some ''while'')) (\<lambda>ps.
     and_then (eat ps OP (Some ''('')) (\<lambda>ps.
     and_then (i_expression n ps) (\<lambda>(condition, ps).
     and_then (eat ps OP (Some '')'')) (\<lambda>ps.
     and_then (eat ps OP (Some ''{'')) (\<lambda>ps.
     and_then (i_statement_list n [] ps) (\<lambda>(body, ps).
     and_then (eat ps OP (Some ''}'')) (\<lambda>ps.
     ok (iWhileStatement condition (Block body), ps))))))))"

definition i_parse :: "nat \<Rightarrow> parser \<Rightarrow> iprogram res" where
  "i_parse n ps =
     and_then (i_statement_list n [] ps) (\<lambda>(statements, ps).
       if current_token ps \<noteq> None then raise SyntaxError else ok (iProgram statements))"

text \<open>The state of an \<^verbatim>\<open>Interpreter\<close>: the dictionary \<^verbatim>\<open>variables\<close>, the content of
  the input file with the index into it, and what has been printed.\<close>

record Interpreter =
  i_variables :: "string \<rightharpoonup> int"
  input_data :: string
  input_index :: nat
  i_stdout :: string

definition new_Interpreter :: "string \<Rightarrow> Interpreter" where
  "new_Interpreter inp =
     \<lparr>i_variables = Map.empty, input_data = inp, input_index = 0, i_stdout = []\<rparr>"

definition read_integer :: "Interpreter \<Rightarrow> int \<times> Interpreter" where
  "read_integer st =
     (let spaces = takeWhile isspace (drop (input_index st) (input_data st));
          start_index = input_index st + length spaces;
          rest = drop start_index (input_data st)
      in if rest = [] then (0, st\<lparr>input_index := start_index\<rparr>)
         else
           let sign = (if hd rest = CHR ''-'' then ''-'' else []);
               num_str = sign @ takeWhile isdigit (drop (length sign) rest)
           in if num_str = [] \<or> num_str = ''-'' then (0, st\<lparr>input_index := start_index\<rparr>)
              else (case py_int num_str of None \<Rightarrow> 0 | Some v \<Rightarrow> v,
                    st\<lparr>input_index := start_index + length num_str\<rparr>))"

definition read_character :: "Interpreter \<Rightarrow> int \<times> Interpreter" where
  "read_character st =
     (if input_index st < length (input_data st)
      then (int (of_char (input_data st ! input_index st)),
            st\<lparr>input_index := input_index st + 1\<rparr>)
      else (0, st))"

text \<open>The operators of \<^verbatim>\<open>visit_BinaryOp\<close>, once both operands are evaluated.\<close>

definition binary_op :: "string \<Rightarrow> int \<Rightarrow> int \<Rightarrow> error + int" where
  "binary_op op left right =
     (if op = ''+'' then Inr (left + right)
      else if op = ''-'' then Inr (left - right)
      else if op = ''*'' then Inr (left * right)
      else if op = ''/'' then Inr (if right \<noteq> 0 then left div right else 0)
      else if op = ''%'' then Inr (if right \<noteq> 0 then left mod right else 0)
      else if op = ''>'' then Inr (if left > right then 1 else 0)
      else if op = ''<'' then Inr (if left < right then 1 else 0)
      else if op = ''>='' then Inr (if left \<ge> right then 1 else 0)
      else if op = ''<='' then Inr (if left \<le> right then 1 else 0)
      else if op = ''=='' then Inr (if left = right then 1 else 0)
      else if op = ''!='' then Inr (if left \<noteq> right then 1 else 0)
      else Inl UnknownBinaryOperator)"

text \<open>\<^verbatim>\<open>visit_BinaryOp\<close>, \<^verbatim>\<open>visit_Literal\<close>, \<^verbatim>\<open>visit_Identifier\<close> and
  \<^verbatim>\<open>visit_Keyword\<close>.\<close>

fun visit_iexpr :: "iexpr \<Rightarrow> Interpreter \<Rightarrow> error + int \<times> Interpreter" where
  "visit_iexpr (iBinaryOp l op r) st =
     (case visit_iexpr l st of
        Inl e \<Rightarrow> Inl e
      | Inr (left, st1) \<Rightarrow>
          (case visit_iexpr r st1 of
             Inl e \<Rightarrow> Inl e
           | Inr (right, st2) \<Rightarrow>
               (case binary_op op left right of
                  Inl e \<Rightarrow> Inl e
                | Inr v \<Rightarrow> Inr (v, st2))))"
| "visit_iexpr (iLiteral v) st = Inr (v, st)"
| "visit_iexpr (iIdentifier name) st =
     Inr (case i_variables st name of None \<Rightarrow> 0 | Some v \<Rightarrow> v, st)"
| "visit_iexpr (Keyword name) st =
     (if name = ''read'' then Inr (read_integer st)
      else if name = ''get'' then Inr (read_character st)
      else if name \<in> set [''write'', ''put''] then Inr (0, st)
      else Inl UnknownKeyword)"

text \<open>The second half of \<^verbatim>\<open>visit_Assignment\<close>.\<close>

definition assign :: "iexpr \<Rightarrow> int \<Rightarrow> Interpreter \<Rightarrow> Interpreter" where
  "assign target v st =
     (case target of
        iIdentifier name \<Rightarrow> st\<lparr>i_variables := (i_variables st)(name \<mapsto> v)\<rparr>
      | Keyword name \<Rightarrow>
          (if name = ''write'' then st\<lparr>i_stdout := i_stdout st @ str_int v\<rparr>
           else if name = ''put'' then
             (if 0 \<le> v \<and> v \<le> 127 then st\<lparr>i_stdout := i_stdout st @ [char_of (nat v)]\<rparr>
              else st)
           else st)
      | _ \<Rightarrow> st)"

text \<open>
  \<^verbatim>\<open>visit_Assignment\<close>, \<^verbatim>\<open>visit_IfStatement\<close>, \<^verbatim>\<open>visit_WhileStatement\<close> and
  \<^verbatim>\<open>visit_Block\<close>. A \<^verbatim>\<open>while\<close> loop need not end: the fuel bounds the number of
  iterations of every loop, and \<open>None\<close> means that it ran out. An exception comes
  with what had been printed before it.
\<close>

fun visit_istmt :: "nat \<Rightarrow> istmt \<Rightarrow> Interpreter \<Rightarrow> ((error \<times> string) + Interpreter) option"
  and visit_istmts :: "nat \<Rightarrow> istmt list \<Rightarrow> Interpreter \<Rightarrow> ((error \<times> string) + Interpreter) option"
where
  "visit_istmt fuel (Assignment target rhs) st =
     (case visit_iexpr rhs st of
        Inl e \<Rightarrow> Some (Inl (e, i_stdout st))
      | Inr (v, st1) \<Rightarrow> Some (Inr (assign target v st1)))"
| "visit_istmt fuel (iIfStatement condition then_block else_block) st =
     (case visit_iexpr condition st of
        Inl e \<Rightarrow> Some (Inl (e, i_stdout st))
      | Inr (c, st1) \<Rightarrow>
          (if c \<noteq> 0 then visit_istmt fuel then_block st1
           else (case else_block of
                   Some b \<Rightarrow> visit_istmt fuel b st1
                 | None \<Rightarrow> Some (Inr st1))))"
| "visit_istmt fuel (iWhileStatement condition body) st =
     (case visit_iexpr condition st of
        Inl e \<Rightarrow> Some (Inl (e, i_stdout st))
      | Inr (c, st1) \<Rightarrow>
          (if c = 0 then Some (Inr st1)
           else (case fuel of
                   0 \<Rightarrow> None
                 | Suc n \<Rightarrow>
                     (case visit_istmt n body st1 of
                        Some (Inr st2) \<Rightarrow> visit_istmt n (iWhileStatement condition body) st2
                      | r \<Rightarrow> r))))"
| "visit_istmt fuel (Block statements) st = visit_istmts fuel statements st"
| "visit_istmts fuel [] st = Some (Inr st)"
| "visit_istmts fuel (s # ss) st =
     (case visit_istmt fuel s st of
        Some (Inr st1) \<Rightarrow> visit_istmts fuel ss st1
      | r \<Rightarrow> r)"

definition "interpret" :: "nat \<Rightarrow> iprogram \<Rightarrow> Interpreter \<Rightarrow> ((error \<times> string) + Interpreter) option" where
  "interpret fuel ast st = (case ast of iProgram statements \<Rightarrow> visit_istmts fuel statements st)"

text \<open>\<^verbatim>\<open>main\<close> of \<^verbatim>\<open>interpreter.py\<close>, given the source, the content of the input file,
  the depth for the parser and the fuel for the loops. It swallows every exception, so
  its result is what it has written to standard output.\<close>

definition interpreter_main :: "nat \<Rightarrow> nat \<Rightarrow> string \<Rightarrow> string \<Rightarrow> string option" where
  "interpreter_main n fuel source inp =
     (case ASTParser source of
        Inl e \<Rightarrow> Some []
      | Inr ps \<Rightarrow>
          (case i_parse n ps of
             None \<Rightarrow> None
           | Some (Inl e) \<Rightarrow> Some []
           | Some (Inr ast) \<Rightarrow>
               (case interpret fuel ast (new_Interpreter inp) of
                  None \<Rightarrow> None
                | Some (Inl (e, out)) \<Rightarrow> Some out
                | Some (Inr st) \<Rightarrow> Some (i_stdout st))))"

text \<open>What \<^verbatim>\<open>vm.py\<close> has written to standard output when it ends, with or without an
  exception.\<close>

definition vm_stdout :: "nat \<Rightarrow> byte list \<Rightarrow> string \<Rightarrow> string option" where
  "vm_stdout fuel f all_input =
     (case vm_main fuel f all_input of
        None \<Rightarrow> None
      | Some (Inl (e, out)) \<Rightarrow> Some out
      | Some (Inr st) \<Rightarrow> Some (stdout st))"

subsection \<open>The compiler followed by the VM\<close>

text \<open>The bytecode that \<^verbatim>\<open>compiler.py\<close> writes for a source is given to \<^verbatim>\<open>vm.py\<close>;
  the result is what the VM writes to standard output. When the compiler fails there
  is no bytecode to run and nothing is written.\<close>

definition compile_and_run :: "nat \<Rightarrow> nat \<Rightarrow> string \<Rightarrow> string \<Rightarrow> string option" where
  "compile_and_run n fuel source all_input =
     (case compile n source of
        None \<Rightarrow> None
      | Some (Inl e) \<Rightarrow> Some []
      | Some (Inr f) \<Rightarrow> vm_stdout fuel f all_input)"

subsection \<open>Instruction lists used as examples\<close>

definition jump_program :: "instruction list" where
  "jump_program = [(JUMP, 800), (DSTORE, 7), (PUTI, 0)]"

definition cond_jump_program :: "instruction list" where
  "cond_jump_program =
     [(DSTORE, 0), (DSTORE, 800), (DSTORE, 1600), (EVAL, OP_COND_JUMP), (DSTORE, 7), (PUTI, 0)]"




subsection \<open>The end-to-end scenarios of the specification\<close>

definition echo_sum :: string where
  "echo_sum = ''a = read; b = read; write = a + b;''"

definition branch :: string where
  "branch = ''x = read; if (x > 0) { write = 1; } else { write = 0; }''"

definition loop :: string where
  "loop = ''i = 1; s = 0; while (i <= 10) { s = s + i; i = i + 1; } write = s;''"

definition character_copy :: string where
  "character_copy = ''c = get; put = c; c = get; put = c;''"

definition modulus_normalization :: string where
  "modulus_normalization = ''write = 0 - 7; write = (0 - 7) % 3;''"

definition halt :: string where
  "halt = ''a = 1;''"

section \<open>Properties\<close>

lemmas opcode_defs = NOP_def DSTORE_def DLOAD_def DWRITE_def EVAL_def JUMP_def GETI_def
  GETC_def PUTI_def PUTC_def

lemmas evalop_defs = OP_ADD_def OP_SUB_def OP_MUL_def OP_DIV_def OP_MOD_def OP_GT_def
  OP_LT_def OP_GE_def OP_LE_def OP_EQ_def OP_NE_def OP_COND_JUMP_def

subsection \<open>The main loop of the VM\<close>

lemma run_loop_out_of_bounds:
  "int (length (code st)) \<le> pc st \<Longrightarrow> run_loop fuel st = Some (Inr st)"
  by (subst run_loop.simps) simp

lemma run_loop_step:
  "pc st < int (length (code st)) \<Longrightarrow> loop_body st = Inr (False, st') \<Longrightarrow>
   run_loop (Suc fuel) st = run_loop fuel (st'\<lparr>pc := pc st' + 1\<rparr>)"
  by (subst run_loop.simps) simp

lemma run_loop_halt:
  "pc st < int (length (code st)) \<Longrightarrow> loop_body st = Inr (True, st') \<Longrightarrow>
   run_loop (Suc fuel) st = Some (Inr st')"
  by (subst run_loop.simps) simp

lemma run_loop_error:
  "pc st < int (length (code st)) \<Longrightarrow> loop_body st = Inl e \<Longrightarrow>
   run_loop (Suc fuel) st = Some (Inl (e, stdout st))"
  by (subst run_loop.simps) simp

lemma loop_body_jump:
  "fetch (code st) (pc st) = Inr (JUMP, operand) \<Longrightarrow> operand \<noteq> 0xFFFFFFFF \<Longrightarrow>
   loop_body st = Inr (False, st\<lparr>pc := int (operand div 8) - 1\<rparr>)"
  by (simp add: loop_body_def dispatch_def handle_jump_def)

lemma loop_body_eval:
  "fetch (code st) (pc st) = Inr (EVAL, operand) \<Longrightarrow>
   loop_body st = (case execute_eval_optimized operand st of
                     Inl e \<Rightarrow> Inl e | Inr st' \<Rightarrow> Inr (False, st'))"
  by (simp add: loop_body_def dispatch_def opcode_defs)

lemma cond_jump_stack:
  "stack st = else_addr # then_addr # condition # rest \<Longrightarrow>
   execute_eval_optimized OP_COND_JUMP st =
     Inr (st\<lparr>stack := rest,
             pc := (if condition \<noteq> 0 then then_addr div 8 else else_addr div 8) - 1\<rparr>)"
  by (simp add: execute_eval_optimized_def)

text \<open>
  C3, as the code has it. The main loop is \<^verbatim>\<open>while self.pc < len(code)\<close> and nothing
  checks the target of a jump. When a \<^verbatim>\<open>JUMP\<close> whose operand is not the halt sentinel
  has a target \<^verbatim>\<open>operand // 8\<close> at or beyond the number of instructions, \<^verbatim>\<open>run\<close>
  returns normally with the program counter at that target; so does it after an
  \<^verbatim>\<open>EVAL COND_JUMP\<close> whose selected address divided by 8 is at or beyond the number of
  instructions, the three operands popped; and so after any instruction that does not
  raise and leaves the program counter at or beyond the end. No error is raised.
\<close>

theorem jump_beyond_code_ends_run_normally:
  assumes "pc st < int (length (code st))"
  shows "(fetch (code st) (pc st) = Inr (JUMP, operand) \<and> operand \<noteq> 0xFFFFFFFF
            \<and> length (code st) \<le> operand div 8
          \<longrightarrow> run_loop (Suc fuel) st = Some (Inr (st\<lparr>pc := int (operand div 8)\<rparr>)))
       \<and> (fetch (code st) (pc st) = Inr (EVAL, OP_COND_JUMP)
            \<and> stack st = else_addr # then_addr # condition # rest
            \<and> int (length (code st)) \<le> (if condition \<noteq> 0 then then_addr else else_addr) div 8
          \<longrightarrow> run_loop (Suc fuel) st =
               Some (Inr (st\<lparr>stack := rest,
                     pc := (if condition \<noteq> 0 then then_addr else else_addr) div 8\<rparr>)))
       \<and> (loop_body st = Inr (False, st') \<and> int (length (code st')) \<le> pc st' + 1
          \<longrightarrow> run_loop (Suc fuel) st = Some (Inr (st'\<lparr>pc := pc st' + 1\<rparr>)))"
proof (intro conjI impI)
  assume h: "fetch (code st) (pc st) = Inr (JUMP, operand) \<and> operand \<noteq> 0xFFFFFFFF
     \<and> length (code st) \<le> operand div 8"
  then have "loop_body st = Inr (False, st\<lparr>pc := int (operand div 8) - 1\<rparr>)"
    by (simp add: loop_body_jump)
  with assms have "run_loop (Suc fuel) st = run_loop fuel (st\<lparr>pc := int (operand div 8)\<rparr>)"
    by (simp add: run_loop_step)
  also from h have "\<dots> = Some (Inr (st\<lparr>pc := int (operand div 8)\<rparr>))"
    by (intro run_loop_out_of_bounds) simp
  finally show "run_loop (Suc fuel) st = Some (Inr (st\<lparr>pc := int (operand div 8)\<rparr>))" .
next
  let ?t = "(if condition \<noteq> 0 then then_addr else else_addr) div 8"
  assume h: "fetch (code st) (pc st) = Inr (EVAL, OP_COND_JUMP)
     \<and> stack st = else_addr # then_addr # condition # rest
     \<and> int (length (code st)) \<le> ?t"
  then have "loop_body st = Inr (False, st\<lparr>stack := rest, pc := ?t - 1\<rparr>)"
    by (simp add: loop_body_eval cond_jump_stack)
  with assms have "run_loop (Suc fuel) st = run_loop fuel (st\<lparr>stack := rest, pc := ?t\<rparr>)"
    by (simp add: run_loop_step)
  also from h have "\<dots> = Some (Inr (st\<lparr>stack := rest, pc := ?t\<rparr>))"
    by (intro run_loop_out_of_bounds) simp
  finally show "run_loop (Suc fuel) st = Some (Inr (st\<lparr>stack := rest, pc := ?t\<rparr>))" .
next
  assume h: "loop_body st = Inr (False, st') \<and> int (length (code st')) \<le> pc st' + 1"
  with assms have "run_loop (Suc fuel) st = run_loop fuel (st'\<lparr>pc := pc st' + 1\<rparr>)"
    by (simp add: run_loop_step)
  also from h have "\<dots> = Some (Inr (st'\<lparr>pc := pc st' + 1\<rparr>))"
    by (intro run_loop_out_of_bounds) simp
  finally show "run_loop (Suc fuel) st = Some (Inr (st'\<lparr>pc := pc st' + 1\<rparr>))" .
qed

theorem jump_beyond_code_ends_run_normally_witness:
  "run_loop (Suc 0) ((preload_input [])\<lparr>code := jump_program\<rparr>)
     = Some (Inr ((preload_input [])\<lparr>code := jump_program, pc := 100\<rparr>))
   \<and> run_loop (Suc 0)
        ((preload_input [])\<lparr>code := cond_jump_program, stack := [1600, 800, 0], pc := 3\<rparr>)
     = Some (Inr ((preload_input [])\<lparr>code := cond_jump_program, stack := [], pc := 200\<rparr>))"
  using jump_beyond_code_ends_run_normally
      [of "(preload_input [])\<lparr>code := jump_program\<rparr>" 800 0]
    jump_beyond_code_ends_run_normally
      [of "(preload_input [])\<lparr>code := cond_jump_program, stack := [1600, 800, 0], pc := 3\<rparr>"
          _ _ 1600 800 0 "[]"]
  by (simp add: jump_program_def cond_jump_program_def fetch_def preload_input_def)

text \<open>
  The claim as the specification states it fails. In \<open>jump_program\<close> the first
  instruction jumps to instruction 100 of 3; in \<open>cond_jump_program\<close> the condition is
  0 and the else address is instruction 200 of 6. Both runs return normally, and the
  \<^verbatim>\<open>PUTI\<close> that follows the jump is never executed.
\<close>

theorem jump_beyond_code_no_error:
  "run 1 ((preload_input [])\<lparr>code := jump_program\<rparr>)
     = Some (Inr ((preload_input [])\<lparr>code := jump_program, pc := 100\<rparr>))
   \<and> run 4 ((preload_input [])\<lparr>code := cond_jump_program\<rparr>)
     = Some (Inr ((preload_input [])\<lparr>code := cond_jump_program, pc := 200\<rparr>))"
  by (simp add: run_def preload_input_def run_loop.simps loop_body_def fetch_def dispatch_def
      handle_jump_def handle_dstore_def execute_eval_optimized_def jump_program_def
      cond_jump_program_def opcode_defs evalop_defs)

subsection \<open>The arithmetic of the VM\<close>





















subsection \<open>The bytecode container\<close>

lemma unat_byte: "n < 256 \<Longrightarrow> unat (of_nat n :: byte) = n"
  by (simp add: unat_of_nat)

lemma split_u32:
  "(n::nat) = n div 16777216 * 16777216 + n div 65536 mod 256 * 65536
              + n div 256 mod 256 * 256 + n mod 256"
proof -
  have a: "n div 65536 = n div 16777216 * 256 + n div 65536 mod 256"
    using div_mult_mod_eq [of "n div 65536" 256] by (simp add: div_mult2_eq [symmetric])
  have b: "n div 256 = n div 65536 * 256 + n div 256 mod 256"
    using div_mult_mod_eq [of "n div 256" 256] by (simp add: div_mult2_eq [symmetric])
  have c: "n = n div 256 * 256 + n mod 256" by simp
  from a b c show ?thesis by linarith
qed

lemma pack_I_unpack_I: "pack_I n = Inr b \<Longrightarrow> unpack_I b = Inr n \<and> length b = 4"
proof -
  assume p: "pack_I n = Inr b"
  then have n: "n < 4294967296" by (auto simp add: pack_I_def split: if_splits)
  then have d: "n div 16777216 < 256" by simp
  from p n d show ?thesis
    using split_u32 [of n] by (auto simp add: pack_I_def unpack_I_def unat_byte)
qed

lemma pack_I_ok: "n < 2 ^ 32 \<Longrightarrow> \<exists>b. pack_I n = Inr b"
  by (simp add: pack_I_def)

lemma pack_II_unpack_II:
  assumes "pack_II opcode operand = Inr b"
  shows "length b = 8 \<and> unpack_II b = Inr (opcode, operand)"
proof -
  from assms obtain a c where a: "pack_I opcode = Inr a" and c: "pack_I operand = Inr c"
    and b: "b = a @ c"
    by (auto simp add: pack_II_def split: sum.splits)
  from a c have "unpack_I a = Inr opcode" "length a = 4" "unpack_I c = Inr operand" "length c = 4"
    using pack_I_unpack_I by blast+
  with b show ?thesis by (simp add: unpack_II_def)
qed

lemma pack_code_length: "pack_code instrs = Inr c \<Longrightarrow> length c = 8 * length instrs"
proof (induction instrs arbitrary: c)
  case Nil
  then show ?case by simp
next
  case (Cons x xs)
  obtain opcode operand where x: "x = (opcode, operand)" by (cases x)
  from Cons.prems x obtain b c' where b: "pack_II opcode operand = Inr b"
    and c': "pack_code xs = Inr c'" and c: "c = b @ c'"
    by (auto split: sum.splits)
  from b have "length b = 8" using pack_II_unpack_II by blast
  with Cons.IH [OF c'] c show ?case by simp
qed

lemma pack_code_nth:
  "pack_code instrs = Inr c \<Longrightarrow> i < length instrs \<Longrightarrow>
   unpack_II (take 8 (drop (i * 8) c)) = Inr (instrs ! i)"
proof (induction instrs arbitrary: c i)
  case Nil
  then show ?case by simp
next
  case (Cons x xs)
  obtain opcode operand where x: "x = (opcode, operand)" by (cases x)
  from Cons.prems(1) x obtain b c' where b: "pack_II opcode operand = Inr b"
    and c': "pack_code xs = Inr c'" and c: "c = b @ c'"
    by (auto split: sum.splits)
  from b have lb: "length b = 8" and ub: "unpack_II b = Inr (opcode, operand)"
    using pack_II_unpack_II by blast+
  show ?case
  proof (cases i)
    case 0
    with lb ub c x show ?thesis by simp
  next
    case (Suc j)
    with Cons.prems(2) have "j < length xs" by simp
    from Cons.IH [OF c' this] Suc lb c show ?thesis by simp
  qed
qed

lemma read_instructions_map:
  "list_all (\<lambda>i. unpack_II (take 8 (drop (i * 8) cb)) = Inr (xs ! i)) is \<Longrightarrow>
   read_instructions cb is = Inr (map (nth xs) is)"
  by (induction "is") simp_all

lemma read_pack_code:
  assumes "pack_code instrs = Inr c"
  shows "read_instructions c [0 ..< length instrs] = Inr instrs"
proof -
  have "list_all (\<lambda>i. unpack_II (take 8 (drop (i * 8) c)) = Inr (instrs ! i)) [0 ..< length instrs]"
    using pack_code_nth [OF assms] by (simp add: list_all_iff)
  then have "read_instructions c [0 ..< length instrs] = Inr (map (nth instrs) [0 ..< length instrs])"
    by (rule read_instructions_map)
  then show ?thesis by (simp add: map_nth)
qed

lemma pack_code_ok:
  "list_all (\<lambda>(opcode, operand). opcode < 2 ^ 32 \<and> operand < 2 ^ 32) instrs \<Longrightarrow>
   \<exists>c. pack_code instrs = Inr c"
proof (induction instrs)
  case Nil
  then show ?case by simp
next
  case (Cons x xs)
  obtain opcode operand where x: "x = (opcode, operand)" by (cases x)
  with Cons.prems have "opcode < 2 ^ 32" "operand < 2 ^ 32" by simp_all
  then obtain a b where "pack_I opcode = Inr a" "pack_I operand = Inr b"
    using pack_I_ok by blast
  moreover from Cons obtain c where "pack_code xs = Inr c" by auto
  ultimately show ?case using x by (simp add: pack_II_def)
qed

lemma length_magic: "length magic = 16"
  by (simp add: magic_def)

lemma write_bytecode_load:
  assumes w: "write_bytecode instrs var_cnt = Inr f"
  shows "load_bytecode f st = Inr (st\<lparr>variables := replicate var_cnt 0, stack := [], code := instrs\<rparr>)
       \<and> length f = 32 + 8 * length instrs
       \<and> take 16 f = magic
       \<and> take 4 (drop 16 f) = [0, 0, 0, 1]
       \<and> unpack_I (take 4 (drop 20 f)) = Inr (var_cnt * 4)
       \<and> unpack_I (take 4 (drop 24 f)) = Inr (length instrs * 8)
       \<and> take 4 (drop 28 f) = [0, 0, 0, 0]"
proof -
  from w obtain v d s c where v: "pack_I 1 = Inr v" and d: "pack_I (var_cnt * 4) = Inr d"
    and s: "pack_I (length instrs * 8) = Inr s" and c: "pack_code instrs = Inr c"
    and f: "f = magic @ v @ d @ s @ padding @ c"
    by (auto simp add: write_bytecode_def Let_def split: sum.splits)
  from v have v1: "v = [0, 0, 0, 1]" by (auto simp add: pack_I_def)
  from d have ud: "unpack_I d = Inr (var_cnt * 4)" and ld: "length d = 4"
    using pack_I_unpack_I by blast+
  from s have us: "unpack_I s = Inr (length instrs * 8)" and ls: "length s = 4"
    using pack_I_unpack_I by blast+
  have lc: "length c = 8 * length instrs" using c by (rule pack_code_length)
  have rd: "read_instructions c [0 ..< length instrs] = Inr instrs" using c by (rule read_pack_code)
  have u1: "unpack_I [0, 0, 0, 1 :: byte] = Inr 1" by (simp add: unpack_I_def)
  show ?thesis
    using ud ld us ls lc rd u1
    by (simp add: f v1 load_bytecode_def length_magic padding_def)
qed

text \<open>
  C9, as the code has it. For every instruction list of fewer than \<open>2^29\<close> instructions
  whose opcodes and operands fit in 32 bits and every variable count below \<open>2^30\<close>,
  \<^verbatim>\<open>write_bytecode\<close> succeeds, and \<^verbatim>\<open>load_bytecode\<close> on its bytes succeeds with the
  same instruction list as code, \<open>var_cnt\<close> variables, all 0, and an empty stack. The
  file is 32 bytes of header and 8 bytes for each instruction; the header is the 16
  ASCII codes of \<^verbatim>\<open>MANDRILLBYTECODE\<close>, the version 1, the data size \<open>4 * var_cnt\<close>, the
  code size \<open>8 * length instrs\<close>, each as four bytes with the most significant first,
  and four bytes 0.
\<close>

theorem writer_loader_round_trip:
  assumes "list_all (\<lambda>(opcode, operand). opcode < 2 ^ 32 \<and> operand < 2 ^ 32) instrs"
    and "length instrs * 8 < 2 ^ 32" and "var_cnt * 4 < 2 ^ 32"
  shows "\<exists>f. write_bytecode instrs var_cnt = Inr f
       \<and> load_bytecode f st
           = Inr (st\<lparr>variables := replicate var_cnt 0, stack := [], code := instrs\<rparr>)
       \<and> length f = 32 + 8 * length instrs
       \<and> take 16 f = map (\<lambda>c. of_nat (of_char c)) ''MANDRILLBYTECODE''
       \<and> take 4 (drop 16 f) = [0, 0, 0, 1]
       \<and> unpack_I (take 4 (drop 20 f)) = Inr (var_cnt * 4)
       \<and> unpack_I (take 4 (drop 24 f)) = Inr (length instrs * 8)
       \<and> take 4 (drop 28 f) = [0, 0, 0, 0]"
proof -
  from assms(1) obtain c where "pack_code instrs = Inr c" using pack_code_ok by blast
  moreover from assms(2,3) obtain d s where "pack_I (var_cnt * 4) = Inr d"
    "pack_I (length instrs * 8) = Inr s" using pack_I_ok by blast
  moreover obtain v where "pack_I 1 = Inr v" by (simp add: pack_I_def)
  ultimately obtain f where "write_bytecode instrs var_cnt = Inr f"
    by (simp add: write_bytecode_def Let_def)
  then show ?thesis
    using write_bytecode_load [of instrs var_cnt f st] by (auto simp add: magic_def)
qed

theorem writer_loader_round_trip_witness:
  "\<exists>f. write_bytecode [(DSTORE, 7), (PUTI, 0), (JUMP, 0xFFFFFFFF)] 2 = Inr f
       \<and> load_bytecode f (preload_input [])
           = Inr ((preload_input [])\<lparr>variables := replicate 2 0, stack := [],
                   code := [(DSTORE, 7), (PUTI, 0), (JUMP, 0xFFFFFFFF)]\<rparr>)
       \<and> length f = 56"
proof -
  have "list_all (\<lambda>(opcode, operand). opcode < 2 ^ 32 \<and> operand < 2 ^ 32)
          [(DSTORE, 7 :: nat), (PUTI, 0), (JUMP, 0xFFFFFFFF)]"
    by (simp add: opcode_defs)
  from writer_loader_round_trip [OF this, of 2 "preload_input []"]
  show ?thesis by auto
qed

text \<open>
  The claim as the specification states it fails for a variable count whose data size
  does not fit in 32 bits: \<^verbatim>\<open>struct.pack(">I", data_size)\<close> raises and the writer
  produces no bytes.
\<close>

theorem write_bytecode_variable_count_overflow:
  "write_bytecode [] 1073741824 = Inl StructError"
  by (simp add: write_bytecode_def pack_I_def Let_def)


end
